theory Spec2Isabelle
  imports Complex_Main
begin

section \<open>The fiber tester controller of \<^verbatim>\<open>fiber_tester.py\<close>\<close>

text \<open>
  A shallow embedding of the class \<^verbatim>\<open>FiberTesterController\<close>. A Python \<^verbatim>\<open>str\<close> is a
  \<open>string\<close>; one \<open>char\<close> stands for one code point below 256, which covers every literal
  of the source except the two Morse symbols (see \<open>dot_symbol\<close>, \<open>dash_symbol\<close>).
  A method that assigns to \<^verbatim>\<open>self\<close> takes the controller and returns the controller
  after the call together with what the call returns; an exception that leaves a method
  is the \<open>Inl\<close> of a sum. A returned dictionary is an association list in the order of
  the keys of the source's literal.
\<close>

subsection \<open>Python values and the built-ins the class calls\<close>

datatype pyerr = KeyError string

record event =
  ev_type :: string
  duration :: int
  sequence_type :: "string option"
  ev_value :: "string option"
  description :: string

text \<open>
  An \<open>event\<close> is one dictionary of the transmission sequence. The keys
  \<^verbatim>\<open>'sequence_type'\<close> and \<^verbatim>\<open>'value'\<close> exist in the dictionaries of dots and dashes only,
  so these two fields are \<open>None\<close> where the dictionary has no such key.
\<close>

datatype pyval =
    PNone
  | PBool bool
  | PInt int
  | PStr string
  | PStrs "string list"
  | PEvents "event list"

type_synonym result = "(string \<times> pyval) list"

definition truthy :: "string option \<Rightarrow> bool" where
  \<comment> \<open>the truth value of an attribute that is \<^verbatim>\<open>None\<close> or a \<^verbatim>\<open>str\<close>\<close>
  "truthy x = (case x of None \<Rightarrow> False | Some s \<Rightarrow> s \<noteq> [])"

definition fmt :: "string option \<Rightarrow> string" where
  \<comment> \<open>how an f-string renders such an attribute\<close>
  "fmt x = (case x of None \<Rightarrow> ''None'' | Some s \<Rightarrow> s)"

definition opt_val :: "string option \<Rightarrow> pyval" where
  "opt_val x = (case x of None \<Rightarrow> PNone | Some s \<Rightarrow> PStr s)"

definition py_isspace :: "char \<Rightarrow> bool" where
  \<comment> \<open>the code points below 256 that \<^verbatim>\<open>int()\<close> strips: tab, LF, VT, FF, CR, space,
      NEL and the no-break space\<close>
  "py_isspace ch = (ch \<in> set [CHR 0x09, CHR 0x0A, CHR 0x0B, CHR 0x0C, CHR 0x0D, CHR 0x20,
                               CHR 0x85, CHR 0xA0])"

definition py_isdigit :: "char \<Rightarrow> bool" where
  "py_isdigit ch = (ch \<in> set ''0123456789'')"

definition digit_value :: "char \<Rightarrow> int" where
  "digit_value ch = int (of_char ch) - 48"

fun digits_from :: "bool \<Rightarrow> int \<Rightarrow> string \<Rightarrow> int option" where
  "digits_from prev acc [] = (if prev then Some acc else None)"
| "digits_from prev acc (ch # cs) =
     (if py_isdigit ch then digits_from True (10 * acc + digit_value ch) cs
      else if ch = CHR ''_'' \<and> prev then digits_from False acc cs
      else None)"

text \<open>
  \<open>digits_from prev acc cs\<close> reads the digit part of a decimal literal: digits, with
  single underscores allowed between two digits. \<open>prev\<close> says that the character before
  was a digit; the literal has to end after a digit.
\<close>

definition py_strip :: "string \<Rightarrow> string" where
  "py_strip s = rev (dropWhile py_isspace (rev (dropWhile py_isspace s)))"

definition py_int :: "string \<Rightarrow> int option" where
  \<comment> \<open>the built-in \<^verbatim>\<open>int(s)\<close> on a \<^verbatim>\<open>str\<close>; \<open>None\<close> is \<^verbatim>\<open>ValueError\<close>\<close>
  "py_int s =
     (case py_strip s of
        [] \<Rightarrow> None
      | ch # cs \<Rightarrow>
          if ch = CHR ''+'' then digits_from False 0 cs
          else if ch = CHR ''-'' then map_option uminus (digits_from False 0 cs)
          else digits_from False 0 (ch # cs))"

text \<open>
  \<open>py_int\<close> follows the interpreter's grammar for base 10: surrounding whitespace, one
  optional sign, then the digit part. The interpreter's configurable limit on the number
  of digits (4300 by default) is not part of the model; it only turns some literals of
  more than 4300 digits into \<^verbatim>\<open>ValueError\<close>.
\<close>

definition upper_char :: "char \<Rightarrow> char" where
  "upper_char ch =
     (if 97 \<le> (of_char ch :: nat) \<and> (of_char ch :: nat) \<le> 122
      then char_of ((of_char ch :: nat) - 32) else ch)"

definition py_upper :: "string \<Rightarrow> string" where
  \<comment> \<open>\<^verbatim>\<open>str.upper()\<close> on ASCII; a character from 128 on is left as it is (Python sends it
      to a character from 128 on or to \<^verbatim>\<open>'SS'\<close>, which is no key of \<open>MORSE_CODE\<close> either)\<close>
  "py_upper s = map upper_char s"

subsection \<open>Class constants\<close>

definition dot_symbol :: char where
  \<comment> \<open>the middle dot U+00B7\<close>
  "dot_symbol = CHR 0xB7"

definition dash_symbol :: char where
  \<comment> \<open>the minus sign U+2212 has no code below 256; the patterns of \<open>MORSE_CODE\<close> are the
      only place it occurs, and there it is written as the hyphen-minus\<close>
  "dash_symbol = CHR 0x2D"

definition MORSE_CODE :: "(string \<times> string) list" where
  "MORSE_CODE =
     [(''R'', [dot_symbol, dash_symbol, dot_symbol]),
      (''G'', [dash_symbol, dash_symbol, dot_symbol]),
      (''B'', [dash_symbol, dot_symbol, dot_symbol, dot_symbol]),
      (''0'', [dash_symbol, dash_symbol, dash_symbol, dash_symbol, dash_symbol]),
      (''1'', [dot_symbol, dash_symbol, dash_symbol, dash_symbol, dash_symbol]),
      (''2'', [dot_symbol, dot_symbol, dash_symbol, dash_symbol, dash_symbol]),
      (''3'', [dot_symbol, dot_symbol, dot_symbol, dash_symbol, dash_symbol]),
      (''4'', [dot_symbol, dot_symbol, dot_symbol, dot_symbol, dash_symbol]),
      (''5'', [dot_symbol, dot_symbol, dot_symbol, dot_symbol, dot_symbol]),
      (''6'', [dash_symbol, dot_symbol, dot_symbol, dot_symbol, dot_symbol]),
      (''7'', [dash_symbol, dash_symbol, dot_symbol, dot_symbol, dot_symbol]),
      (''8'', [dash_symbol, dash_symbol, dash_symbol, dot_symbol, dot_symbol]),
      (''9'', [dash_symbol, dash_symbol, dash_symbol, dash_symbol, dot_symbol])]"

definition morse_lookup :: "string \<Rightarrow> pyerr + string" where
  \<comment> \<open>\<^verbatim>\<open>self.MORSE_CODE[key]\<close>\<close>
  "morse_lookup key =
     (case map_of MORSE_CODE key of None \<Rightarrow> Inl (KeyError key) | Some p \<Rightarrow> Inr p)"

definition DOT_DURATION :: int where "DOT_DURATION = 200"
definition DASH_DURATION :: int where "DASH_DURATION = 600"
definition INTRA_LETTER_GAP :: int where "INTRA_LETTER_GAP = 200"
definition INTER_LETTER_GAP :: int where "INTER_LETTER_GAP = 600"
definition WORD_GAP :: int where "WORD_GAP = 1400"
definition CONFIRMATION_FLASH :: int where "CONFIRMATION_FLASH = 1000"

subsection \<open>The controller\<close>

record transmission_record =
  rec_color :: string
  rec_number :: string
  rec_timestamp :: real
  rec_message :: string

record controller =
  transmission_history :: "transmission_record list"
  current_color :: "string option"
  current_number :: "string option"
  is_transmitting :: bool

definition FiberTesterController_init :: controller where
  "FiberTesterController_init =
     \<lparr>transmission_history = [], current_color = None, current_number = None,
      is_transmitting = False\<rparr>"

definition validate_color :: "string \<Rightarrow> bool" where
  "validate_color c = (c \<in> set [''Red'', ''Green'', ''Blue''])"

definition validate_number :: "string \<Rightarrow> bool" where
  "validate_number n = (case py_int n of None \<Rightarrow> False | Some num \<Rightarrow> 0 \<le> num \<and> num \<le> 100)"

definition set_color :: "controller \<Rightarrow> string \<Rightarrow> controller \<times> result" where
  "set_color self c =
     (if \<not> validate_color c then
        (self,
         [(''success'', PBool False),
          (''message'', PStr (''Invalid color: '' @ c @ ''. Must be Red, Green, or Blue.'')),
          (''status'', PStr ''error'')])
      else
        (self\<lparr>current_color := Some c\<rparr>,
         [(''success'', PBool True),
          (''message'', PStr (c @ '' selected - Enter number'')),
          (''status'', PStr ''color_selected''),
          (''color'', PStr c)]))"

definition set_number :: "controller \<Rightarrow> string \<Rightarrow> controller \<times> result" where
  "set_number self n =
     (if \<not> validate_number n then
        (self,
         [(''success'', PBool False),
          (''message'', PStr (''Invalid number: '' @ n @ ''. Must be 0-100.'')),
          (''status'', PStr ''error'')])
      else
        (self\<lparr>current_number := Some n\<rparr>,
         [(''success'', PBool True),
          (''message'',
             PStr (if truthy (current_color self)
                   then fmt (current_color self) @ '' '' @ n @ '' ready''
                   else ''Number '' @ n @ '' set - Select color'')),
          (''status'', PStr ''number_set''),
          (''number'', PStr n)]))"

definition clear_selection :: "controller \<Rightarrow> controller \<times> result" where
  "clear_selection self =
     (self\<lparr>current_color := None, current_number := None\<rparr>,
      [(''success'', PBool True),
       (''message'', PStr ''Select color and number''),
       (''status'', PStr ''cleared'')])"

subsection \<open>The sequence compiler\<close>

definition pattern_to_sequence :: "string \<Rightarrow> string \<Rightarrow> string \<Rightarrow> event list" where
  "pattern_to_sequence pattern seq_type v =
     concat (map (\<lambda>(i, symbol).
        (if symbol = dot_symbol then
           [\<lparr>ev_type = ''dot'', duration = DOT_DURATION, sequence_type = Some seq_type,
             ev_value = Some v, description = ''Dot ('' @ seq_type @ '')''\<rparr>]
         else if symbol = dash_symbol then
           [\<lparr>ev_type = ''dash'', duration = DASH_DURATION, sequence_type = Some seq_type,
             ev_value = Some v, description = ''Dash ('' @ seq_type @ '')''\<rparr>]
         else [])
        @ (if int i < int (length pattern) - 1 then
             [\<lparr>ev_type = ''gap'', duration = INTRA_LETTER_GAP, sequence_type = None,
               ev_value = None, description = ''Intra-letter gap''\<rparr>]
           else []))
       (enumerate 0 pattern))"

fun number_loop :: "event list \<Rightarrow> string \<Rightarrow> pyerr + event list" where
  "number_loop sequence [] = Inr sequence"
| "number_loop sequence (digit # rest) =
     (case morse_lookup [digit] of
        Inl e \<Rightarrow> Inl e
      | Inr digit_pattern \<Rightarrow>
          number_loop
            (sequence @ pattern_to_sequence digit_pattern ''digit'' [digit]
             @ [\<lparr>ev_type = ''gap'', duration = INTER_LETTER_GAP, sequence_type = None,
                 ev_value = None,
                 description = ''Inter-letter gap after digit '' @ [digit]\<rparr>])
            rest)"

text \<open>
  \<open>number_loop\<close> is the loop \<^verbatim>\<open>for digit in self.current_number\<close> of
  \<^verbatim>\<open>calculate_transmission_sequence\<close>, with the list built so far as its first argument.
\<close>

definition calculate_transmission_sequence :: "controller \<Rightarrow> pyerr + event list" where
  "calculate_transmission_sequence self =
     (if \<not> truthy (current_color self) \<or> \<not> truthy (current_number self) then Inr []
      else
        let color_letter = py_upper (take 1 (fmt (current_color self))) in
        case morse_lookup color_letter of
          Inl e \<Rightarrow> Inl e
        | Inr color_pattern \<Rightarrow>
            (case number_loop
                    (pattern_to_sequence color_pattern ''color'' ''''
                     @ [\<lparr>ev_type = ''gap'', duration = INTER_LETTER_GAP, sequence_type = None,
                         ev_value = None, description = ''Inter-letter gap''\<rparr>])
                    (fmt (current_number self)) of
               Inl e \<Rightarrow> Inl e
             | Inr sequence \<Rightarrow>
                 Inr (sequence
                      @ [\<lparr>ev_type = ''confirmation'', duration = CONFIRMATION_FLASH,
                          sequence_type = None, ev_value = None,
                          description = ''Confirmation flash''\<rparr>])))"

definition prepare_transmission :: "controller \<Rightarrow> controller \<times> (pyerr + result)" where
  "prepare_transmission self =
     (if \<not> truthy (current_color self) then
        (self, Inr [(''success'', PBool False),
                    (''message'', PStr ''No color selected''),
                    (''status'', PStr ''error'')])
      else if \<not> truthy (current_number self) then
        (self, Inr [(''success'', PBool False),
                    (''message'', PStr ''No number entered''),
                    (''status'', PStr ''error'')])
      else if is_transmitting self then
        (self, Inr [(''success'', PBool False),
                    (''message'', PStr ''Transmission already in progress''),
                    (''status'', PStr ''error'')])
      else
        case calculate_transmission_sequence self of
          Inl e \<Rightarrow> (self, Inl e)
        | Inr sequence \<Rightarrow>
            (self,
             Inr [(''success'', PBool True),
                  (''message'',
                     PStr (''Transmitting '' @ fmt (current_color self) @ '' ''
                           @ fmt (current_number self) @ ''...'')),
                  (''status'', PStr ''transmitting''),
                  (''color'', opt_val (current_color self)),
                  (''number'', opt_val (current_number self)),
                  (''sequence'', PEvents sequence),
                  (''total_duration'', PInt (sum_list (map duration sequence)))]))"

text \<open>
  Neither \<^verbatim>\<open>prepare_transmission\<close> nor the two methods it calls assign to an attribute of
  \<^verbatim>\<open>self\<close>, so the controller after the call is the one before it, also when the call
  raises.
\<close>

definition complete_transmission :: "controller \<Rightarrow> real \<Rightarrow> controller \<times> result" where
  \<comment> \<open>the second argument is the reading of \<^verbatim>\<open>time.time()\<close>\<close>
  "complete_transmission self now =
     (if \<not> truthy (current_color self) \<or> \<not> truthy (current_number self) then
        (self,
         [(''success'', PBool False),
          (''message'', PStr ''No transmission to complete''),
          (''status'', PStr ''error'')])
      else
        let record = \<lparr>rec_color = fmt (current_color self),
                      rec_number = fmt (current_number self),
                      rec_timestamp = now,
                      rec_message = fmt (current_color self) @ '' ''
                                    @ fmt (current_number self) @ '' sent''\<rparr>;
            inserted = record # transmission_history self;
            history = (if length inserted > 5 then take 5 inserted else inserted)
        in
          (self\<lparr>transmission_history := history, current_color := None,
                current_number := None, is_transmitting := False\<rparr>,
           [(''success'', PBool True),
            (''message'',
               PStr (fmt (current_color self) @ '' '' @ fmt (current_number self) @ '' sent'')),
            (''status'', PStr ''completed''),
            (''history'', PStrs (map rec_message history))]))"

definition get_status :: "controller \<Rightarrow> controller \<times> result" where
  "get_status self =
     (self,
      [(''color'', opt_val (current_color self)),
       (''number'', opt_val (current_number self)),
       (''is_transmitting'', PBool (is_transmitting self)),
       (''history'', PStrs (map rec_message (transmission_history self))),
       (''ready_to_send'',
          PBool (truthy (current_color self) \<and> truthy (current_number self)
                 \<and> \<not> is_transmitting self))])"

subsection \<open>Sequences of calls\<close>

datatype operation =
    Set_color string
  | Set_number string
  | Clear_selection
  | Prepare_transmission
  | Complete_transmission real
  | Get_status

fun step :: "controller \<Rightarrow> operation \<Rightarrow> controller" where
  "step self (Set_color c) = fst (set_color self c)"
| "step self (Set_number n) = fst (set_number self n)"
| "step self Clear_selection = fst (clear_selection self)"
| "step self Prepare_transmission = fst (prepare_transmission self)"
| "step self (Complete_transmission now) = fst (complete_transmission self now)"
| "step self Get_status = fst (get_status self)"

definition run :: "operation list \<Rightarrow> controller" where
  \<comment> \<open>the controller after the constructor and the calls \<open>ops\<close>, in this order\<close>
  "run ops = foldl step FiberTesterController_init ops"

definition selection_valid :: "controller \<Rightarrow> bool" where
  \<comment> \<open>the selection holds only what the two setters store\<close>
  "selection_valid self =
     ((case current_color self of None \<Rightarrow> True | Some c \<Rightarrow> validate_color c)
      \<and> (case current_number self of None \<Rightarrow> True | Some n \<Rightarrow> validate_number n))"

definition has_success_message :: "result \<Rightarrow> bool" where
  "has_success_message r =
     ((case map_of r ''success'' of Some (PBool b) \<Rightarrow> True | _ \<Rightarrow> False)
      \<and> (case map_of r ''message'' of Some (PStr m) \<Rightarrow> True | _ \<Rightarrow> False))"

subsection \<open>The example sequence\<close>

text \<open>
  The sequence that the example for \<^verbatim>\<open>Blue\<close> and \<^verbatim>\<open>7\<close> describes, written out event
  by event: the letter \<^verbatim>\<open>B\<close> (dash, dot, dot, dot), a gap between letters, the digit
  \<^verbatim>\<open>7\<close> (dash, dash, dot, dot, dot), a gap between letters and the confirmation flash.
  It is what \<open>prepare_transmission\<close> is compared with below.
\<close>

definition expected_Blue_7 :: "event list" where
  "expected_Blue_7 =
     [\<lparr>ev_type = ''dash'', duration = 600, sequence_type = Some ''color'',
       ev_value = Some '''', description = ''Dash (color)''\<rparr>,
      \<lparr>ev_type = ''gap'', duration = 200, sequence_type = None,
       ev_value = None, description = ''Intra-letter gap''\<rparr>,
      \<lparr>ev_type = ''dot'', duration = 200, sequence_type = Some ''color'',
       ev_value = Some '''', description = ''Dot (color)''\<rparr>,
      \<lparr>ev_type = ''gap'', duration = 200, sequence_type = None,
       ev_value = None, description = ''Intra-letter gap''\<rparr>,
      \<lparr>ev_type = ''dot'', duration = 200, sequence_type = Some ''color'',
       ev_value = Some '''', description = ''Dot (color)''\<rparr>,
      \<lparr>ev_type = ''gap'', duration = 200, sequence_type = None,
       ev_value = None, description = ''Intra-letter gap''\<rparr>,
      \<lparr>ev_type = ''dot'', duration = 200, sequence_type = Some ''color'',
       ev_value = Some '''', description = ''Dot (color)''\<rparr>,
      \<lparr>ev_type = ''gap'', duration = 600, sequence_type = None,
       ev_value = None, description = ''Inter-letter gap''\<rparr>,
      \<lparr>ev_type = ''dash'', duration = 600, sequence_type = Some ''digit'',
       ev_value = Some ''7'', description = ''Dash (digit)''\<rparr>,
      \<lparr>ev_type = ''gap'', duration = 200, sequence_type = None,
       ev_value = None, description = ''Intra-letter gap''\<rparr>,
      \<lparr>ev_type = ''dash'', duration = 600, sequence_type = Some ''digit'',
       ev_value = Some ''7'', description = ''Dash (digit)''\<rparr>,
      \<lparr>ev_type = ''gap'', duration = 200, sequence_type = None,
       ev_value = None, description = ''Intra-letter gap''\<rparr>,
      \<lparr>ev_type = ''dot'', duration = 200, sequence_type = Some ''digit'',
       ev_value = Some ''7'', description = ''Dot (digit)''\<rparr>,
      \<lparr>ev_type = ''gap'', duration = 200, sequence_type = None,
       ev_value = None, description = ''Intra-letter gap''\<rparr>,
      \<lparr>ev_type = ''dot'', duration = 200, sequence_type = Some ''digit'',
       ev_value = Some ''7'', description = ''Dot (digit)''\<rparr>,
      \<lparr>ev_type = ''gap'', duration = 200, sequence_type = None,
       ev_value = None, description = ''Intra-letter gap''\<rparr>,
      \<lparr>ev_type = ''dot'', duration = 200, sequence_type = Some ''digit'',
       ev_value = Some ''7'', description = ''Dot (digit)''\<rparr>,
      \<lparr>ev_type = ''gap'', duration = 600, sequence_type = None,
       ev_value = None, description = ''Inter-letter gap after digit 7''\<rparr>,
      \<lparr>ev_type = ''confirmation'', duration = 1000, sequence_type = None,
       ev_value = None, description = ''Confirmation flash''\<rparr>]"

section \<open>Properties\<close>

subsection \<open>Helper lemmas\<close>

lemma py_int_Nil: "py_int [] = None"
  by (simp add: py_int_def py_strip_def)

lemma validate_number_nonempty: "validate_number n \<Longrightarrow> n \<noteq> []"
  by (auto simp: validate_number_def py_int_Nil)

lemma validate_color_nonempty: "validate_color c \<Longrightarrow> c \<noteq> []"
  by (auto simp: validate_color_def)

lemma truthy_set:
  "selection_valid self \<Longrightarrow> truthy (current_color self) = (current_color self \<noteq> None)"
  "selection_valid self \<Longrightarrow> truthy (current_number self) = (current_number self \<noteq> None)"
  by (auto simp: selection_valid_def truthy_def validate_color_def validate_number_def py_int_Nil
           split: option.splits)

lemma prepare_transmission_state: "fst (prepare_transmission self) = self"
  by (simp add: prepare_transmission_def split: sum.splits)

lemma step_selection_valid: "selection_valid self \<Longrightarrow> selection_valid (step self op)"
  by (cases op)
     (auto simp: selection_valid_def set_color_def set_number_def clear_selection_def
                 prepare_transmission_state complete_transmission_def get_status_def Let_def
           split: option.splits)

lemma run_snoc: "run (ops @ [op]) = step (run ops) op"
  by (simp add: run_def)

text \<open>Every controller that the constructor and the six operations produce holds a valid
  selection, has the flag down and keeps at most five records.\<close>

lemma run_selection_valid: "selection_valid (run ops)"
proof (induction ops rule: rev_induct)
  case Nil
  show ?case by (simp add: run_def selection_valid_def FiberTesterController_init_def)
next
  case (snoc op ops)
  then show ?case by (simp add: run_snoc step_selection_valid)
qed

lemma step_is_transmitting: "is_transmitting (step self op) \<Longrightarrow> is_transmitting self"
  by (cases op)
     (auto simp: set_color_def set_number_def clear_selection_def prepare_transmission_state
                 complete_transmission_def get_status_def Let_def split: if_splits)

lemma run_not_transmitting: "\<not> is_transmitting (run ops)"
proof (induction ops rule: rev_induct)
  case Nil
  show ?case by (simp add: run_def FiberTesterController_init_def)
next
  case (snoc op ops)
  then show ?case using step_is_transmitting by (auto simp: run_snoc)
qed

lemma step_history_length:
  "length (transmission_history self) \<le> 5 \<Longrightarrow> length (transmission_history (step self op)) \<le> 5"
  by (cases op)
     (auto simp: set_color_def set_number_def clear_selection_def prepare_transmission_state
                 complete_transmission_def get_status_def Let_def split: if_splits)

lemma run_history_length: "length (transmission_history (run ops)) \<le> 5"
proof (induction ops rule: rev_induct)
  case Nil
  show ?case by (simp add: run_def FiberTesterController_init_def)
next
  case (snoc op ops)
  then show ?case by (simp add: run_snoc step_history_length)
qed

lemma calculate_Blue_7_closed:
  "calculate_transmission_sequence
     \<lparr>transmission_history = [], current_color = Some ''Blue'', current_number = Some ''7'',
      is_transmitting = False\<rparr> = Inr expected_Blue_7"
  by code_simp

lemma calculate_depends:
  assumes "current_color a = current_color b" "current_number a = current_number b"
  shows "calculate_transmission_sequence a = calculate_transmission_sequence b"
  unfolding calculate_transmission_sequence_def assms by (rule refl)

lemma calculate_Blue_7:
  assumes "current_color self = Some ''Blue''" "current_number self = Some ''7''"
  shows "calculate_transmission_sequence self = Inr expected_Blue_7"
proof -
  have "calculate_transmission_sequence self =
        calculate_transmission_sequence
          \<lparr>transmission_history = [], current_color = Some ''Blue'',
           current_number = Some ''7'', is_transmitting = False\<rparr>"
    by (rule calculate_depends) (simp_all add: assms)
  then show ?thesis by (simp add: calculate_Blue_7_closed)
qed

lemma expected_Blue_7_total: "sum_list (map duration expected_Blue_7) = 6600"
  by (simp add: expected_Blue_7_def)

lemma prepare_Blue_7:
  assumes "current_color self = Some ''Blue''" "current_number self = Some ''7''"
    "\<not> is_transmitting self"
  shows "prepare_transmission self =
      (self, Inr [(''success'', PBool True),
                  (''message'', PStr ''Transmitting Blue 7...''),
                  (''status'', PStr ''transmitting''),
                  (''color'', PStr ''Blue''),
                  (''number'', PStr ''7''),
                  (''sequence'', PEvents expected_Blue_7),
                  (''total_duration'', PInt 6600)])"
  using assms
  by (simp add: prepare_transmission_def truthy_def fmt_def opt_val_def calculate_Blue_7
                expected_Blue_7_total)

lemma complete_six_times: "map rec_message (transmission_history (run
   [Set_color ''Red'', Set_number ''1'', Complete_transmission 1,
    Set_color ''Red'', Set_number ''2'', Complete_transmission 2,
    Set_color ''Red'', Set_number ''3'', Complete_transmission 3,
    Set_color ''Red'', Set_number ''4'', Complete_transmission 4,
    Set_color ''Red'', Set_number ''5'', Complete_transmission 5,
    Set_color ''Red'', Set_number ''6'', Complete_transmission 6]))
  = [''Red 6 sent'', ''Red 5 sent'', ''Red 4 sent'', ''Red 3 sent'', ''Red 2 sent'']"
  by code_simp

subsection \<open>Validation failures change nothing\<close>

text \<open>
  C6. In every controller state and for every argument: \<^verbatim>\<open>set_color\<close> with a string
  other than \<^verbatim>\<open>Red\<close>, \<^verbatim>\<open>Green\<close>, \<^verbatim>\<open>Blue\<close>, and \<^verbatim>\<open>set_number\<close> with a string that
  \<^verbatim>\<open>int()\<close> does not read as a value from 0 to 100, return the failure record
  (\<^verbatim>\<open>success\<close> false, \<^verbatim>\<open>status\<close> \<^verbatim>\<open>error\<close>) and the controller after the call is the
  controller before it, in all four fields.
\<close>

theorem setter_failure_atomic:
  "(c \<notin> {''Red'', ''Green'', ''Blue''} \<longrightarrow>
      set_color self c =
        (self, [(''success'', PBool False),
                (''message'', PStr (''Invalid color: '' @ c @ ''. Must be Red, Green, or Blue.'')),
                (''status'', PStr ''error'')]))
   \<and> (\<not> (\<exists>v. py_int n = Some v \<and> 0 \<le> v \<and> v \<le> 100) \<longrightarrow>
      set_number self n =
        (self, [(''success'', PBool False),
                (''message'', PStr (''Invalid number: '' @ n @ ''. Must be 0-100.'')),
                (''status'', PStr ''error'')]))"
  by (auto simp: set_color_def set_number_def validate_color_def validate_number_def
           split: option.splits)

theorem setter_failure_atomic_witness:
  "''red'' \<notin> {''Red'', ''Green'', ''Blue''}
   \<and> \<not> (\<exists>v. py_int ''101'' = Some v \<and> 0 \<le> v \<and> v \<le> 100)
   \<and> fst (set_color (run [Set_color ''Blue'', Set_number ''7'']) ''red'')
       = run [Set_color ''Blue'', Set_number ''7'']
   \<and> map_of (snd (set_color (run [Set_color ''Blue'', Set_number ''7'']) ''red'')) ''status''
       = Some (PStr ''error'')
   \<and> fst (set_number (run [Set_color ''Blue'', Set_number ''7'']) ''101'')
       = run [Set_color ''Blue'', Set_number ''7'']
   \<and> map_of (snd (set_number (run [Set_color ''Blue'', Set_number ''7'']) ''101'')) ''status''
       = Some (PStr ''error'')"
proof -
  have v: "py_int ''101'' = Some 101" by code_simp
  have h1: "''red'' \<notin> {''Red'', ''Green'', ''Blue''}" by simp
  have h2: "\<not> (\<exists>v. py_int ''101'' = Some v \<and> 0 \<le> v \<and> v \<le> 100)" by (simp add: v)
  show ?thesis
    using h1 h2
      setter_failure_atomic [of "''red''" "run [Set_color ''Blue'', Set_number ''7'']" "''101''"]
    by simp
qed

subsection \<open>The status report\<close>

text \<open>
  C7. In every controller state with a valid selection (which every state produced by
  the operations is, \<open>run_selection_valid\<close>), \<^verbatim>\<open>get_status\<close> reports \<^verbatim>\<open>ready_to_send\<close>
  true exactly when a color is set, a number is set and \<^verbatim>\<open>is_transmitting\<close> is false,
  and the controller after the call is the controller before it.
\<close>

theorem get_status_ready_to_send:
  assumes "selection_valid self"
  shows "fst (get_status self) = self
   \<and> map_of (snd (get_status self)) ''ready_to_send''
       = Some (PBool (current_color self \<noteq> None \<and> current_number self \<noteq> None
                      \<and> \<not> is_transmitting self))"
  using assms by (simp add: get_status_def truthy_set)

theorem get_status_ready_to_send_witness:
  "selection_valid (run [Set_color ''Blue'', Set_number ''7''])
   \<and> map_of (snd (get_status (run [Set_color ''Blue'', Set_number ''7''])))
        ''ready_to_send'' = Some (PBool True)"
proof -
  have h: "selection_valid (run [Set_color ''Blue'', Set_number ''7''])"
    by code_simp
  have s: "current_color (run [Set_color ''Blue'', Set_number ''7'']) = Some ''Blue''"
     "current_number (run [Set_color ''Blue'', Set_number ''7'']) = Some ''7''"
     "\<not> is_transmitting (run [Set_color ''Blue'', Set_number ''7''])"
    by code_simp+
  show ?thesis using h get_status_ready_to_send [OF h] by (simp add: s)
qed

subsection \<open>Clearing the selection\<close>

text \<open>
  C8. In every controller state \<^verbatim>\<open>clear_selection\<close> returns the record with status
  \<^verbatim>\<open>cleared\<close>, leaves color and number unset and the history and the flag as they
  were; a second call returns the same record and the same controller as the first.
\<close>

theorem clear_selection_frame:
  "clear_selection self =
     (self\<lparr>current_color := None, current_number := None\<rparr>,
      [(''success'', PBool True), (''message'', PStr ''Select color and number''),
       (''status'', PStr ''cleared'')])
   \<and> current_color (fst (clear_selection self)) = None
   \<and> current_number (fst (clear_selection self)) = None
   \<and> transmission_history (fst (clear_selection self)) = transmission_history self
   \<and> is_transmitting (fst (clear_selection self)) = is_transmitting self
   \<and> clear_selection (fst (clear_selection self)) = clear_selection self"
  by (simp add: clear_selection_def)

subsection \<open>Preparing a transmission reads only\<close>

text \<open>
  C10. \<^verbatim>\<open>prepare_transmission\<close> leaves all four fields of the controller as they were,
  whether it returns the success record, a failure record or raises; a second call in
  the state it leaves returns what the first call returned (the same sequence and the
  same total duration, or the same failure).
\<close>

theorem prepare_transmission_frame:
  "fst (prepare_transmission self) = self
   \<and> current_color (fst (prepare_transmission self)) = current_color self
   \<and> current_number (fst (prepare_transmission self)) = current_number self
   \<and> is_transmitting (fst (prepare_transmission self)) = is_transmitting self
   \<and> transmission_history (fst (prepare_transmission self)) = transmission_history self
   \<and> snd (prepare_transmission (fst (prepare_transmission self)))
       = snd (prepare_transmission self)"
  by (simp add: prepare_transmission_state)

subsection \<open>The example transmission\<close>

text \<open>
  C1. For a controller whose current color is \<^verbatim>\<open>Blue\<close> and whose current number is
  \<^verbatim>\<open>7\<close>, with the flag \<^verbatim>\<open>is_transmitting\<close> down (as it is in every controller that
  the operations produce, which is the second conjunct), \<^verbatim>\<open>prepare_transmission\<close> returns
  the success record with exactly the sequence \<open>expected_Blue_7\<close>: a dash of 600 ms,
  three dots of 200 ms with a gap of 200 ms before each, a gap of 600 ms, the pattern
  dash dash dot dot dot of the digit with gaps of 200 ms between its symbols, a gap of
  600 ms and one confirmation of 1000 ms. The returned total duration is the sum of the
  durations of the events, 6600 ms.
\<close>

theorem prepare_transmission_Blue_7:
  "(current_color self = Some ''Blue'' \<and> current_number self = Some ''7''
      \<and> \<not> is_transmitting self \<longrightarrow>
      prepare_transmission self =
        (self, Inr [(''success'', PBool True),
                    (''message'', PStr ''Transmitting Blue 7...''),
                    (''status'', PStr ''transmitting''),
                    (''color'', PStr ''Blue''),
                    (''number'', PStr ''7''),
                    (''sequence'', PEvents expected_Blue_7),
                    (''total_duration'', PInt 6600)]))
   \<and> (current_color (run ops) = Some ''Blue'' \<and> current_number (run ops) = Some ''7'' \<longrightarrow>
      prepare_transmission (run ops) =
        (run ops, Inr [(''success'', PBool True),
                       (''message'', PStr ''Transmitting Blue 7...''),
                       (''status'', PStr ''transmitting''),
                       (''color'', PStr ''Blue''),
                       (''number'', PStr ''7''),
                       (''sequence'', PEvents expected_Blue_7),
                       (''total_duration'', PInt 6600)]))
   \<and> map (\<lambda>e. (ev_type e, duration e)) expected_Blue_7 =
       [(''dash'', 600), (''gap'', 200), (''dot'', 200), (''gap'', 200), (''dot'', 200),
        (''gap'', 200), (''dot'', 200),
        (''gap'', 600),
        (''dash'', 600), (''gap'', 200), (''dash'', 600), (''gap'', 200), (''dot'', 200),
        (''gap'', 200), (''dot'', 200), (''gap'', 200), (''dot'', 200),
        (''gap'', 600),
        (''confirmation'', 1000)]
   \<and> sum_list (map duration expected_Blue_7) = 6600"
proof (intro conjI impI)
  assume "current_color self = Some ''Blue'' \<and> current_number self = Some ''7''
      \<and> \<not> is_transmitting self"
  then show "prepare_transmission self =
        (self, Inr [(''success'', PBool True),
                    (''message'', PStr ''Transmitting Blue 7...''),
                    (''status'', PStr ''transmitting''),
                    (''color'', PStr ''Blue''),
                    (''number'', PStr ''7''),
                    (''sequence'', PEvents expected_Blue_7),
                    (''total_duration'', PInt 6600)])"
    by (simp add: prepare_Blue_7)
next
  assume "current_color (run ops) = Some ''Blue'' \<and> current_number (run ops) = Some ''7''"
  then show "prepare_transmission (run ops) =
        (run ops, Inr [(''success'', PBool True),
                       (''message'', PStr ''Transmitting Blue 7...''),
                       (''status'', PStr ''transmitting''),
                       (''color'', PStr ''Blue''),
                       (''number'', PStr ''7''),
                       (''sequence'', PEvents expected_Blue_7),
                       (''total_duration'', PInt 6600)])"
    by (simp add: prepare_Blue_7 run_not_transmitting)
next
  show "map (\<lambda>e. (ev_type e, duration e)) expected_Blue_7 =
       [(''dash'', 600), (''gap'', 200), (''dot'', 200), (''gap'', 200), (''dot'', 200),
        (''gap'', 200), (''dot'', 200),
        (''gap'', 600),
        (''dash'', 600), (''gap'', 200), (''dash'', 600), (''gap'', 200), (''dot'', 200),
        (''gap'', 200), (''dot'', 200), (''gap'', 200), (''dot'', 200),
        (''gap'', 600),
        (''confirmation'', 1000)]"
    by (simp add: expected_Blue_7_def)
next
  show "sum_list (map duration expected_Blue_7) = 6600"
    by (rule expected_Blue_7_total)
qed

theorem prepare_transmission_Blue_7_witness:
  "current_color (run [Set_color ''Blue'', Set_number ''7'']) = Some ''Blue''
   \<and> current_number (run [Set_color ''Blue'', Set_number ''7'']) = Some ''7''
   \<and> \<not> is_transmitting (run [Set_color ''Blue'', Set_number ''7''])
   \<and> snd (prepare_transmission (run [Set_color ''Blue'', Set_number ''7''])) =
       Inr [(''success'', PBool True),
            (''message'', PStr ''Transmitting Blue 7...''),
            (''status'', PStr ''transmitting''),
            (''color'', PStr ''Blue''),
            (''number'', PStr ''7''),
            (''sequence'', PEvents expected_Blue_7),
            (''total_duration'', PInt 6600)]"
proof -
  have s: "current_color (run [Set_color ''Blue'', Set_number ''7'']) = Some ''Blue''"
     "current_number (run [Set_color ''Blue'', Set_number ''7'']) = Some ''7''"
     "\<not> is_transmitting (run [Set_color ''Blue'', Set_number ''7''])"
    by code_simp+
  show ?thesis
    using s prepare_transmission_Blue_7
            [of "run [Set_color ''Blue'', Set_number ''7'']" "[Set_color ''Blue'', Set_number ''7'']"]
    by simp
qed

subsection \<open>A number that the encoder cannot encode\<close>

text \<open>
  C2. The statement that no operation raises does not hold of the code: \<^verbatim>\<open>set_number("+7")\<close> succeeds,
  because \<^verbatim>\<open>int("+7")\<close> is 7, and the following \<^verbatim>\<open>prepare_transmission\<close> raises
  \<^verbatim>\<open>KeyError('+')\<close> when it looks the sign up in \<^verbatim>\<open>MORSE_CODE\<close>.
\<close>

theorem prepare_transmission_raises:
  "snd (set_number (run [Set_color ''Blue'']) ''+7'') =
     [(''success'', PBool True), (''message'', PStr ''Blue +7 ready''),
      (''status'', PStr ''number_set''), (''number'', PStr ''+7'')]
   \<and> snd (prepare_transmission (run [Set_color ''Blue'', Set_number ''+7''])) =
       Inl (KeyError ''+'')"
  by code_simp

text \<open>
  C3. The statement that a stored number consists of decimal digits only does not hold
  of the code:
  after \<^verbatim>\<open>set_number("+7")\<close> on a new controller the stored string is \<^verbatim>\<open>+7\<close>, whose
  value 7 is in range and whose first character is no digit.
\<close>

theorem set_number_stores_sign:
  "py_int ''+7'' = Some 7
   \<and> current_number (run [Set_number ''+7'']) = Some ''+7''
   \<and> \<not> list_all py_isdigit ''+7''"
  by code_simp

subsection \<open>Completing a transmission\<close>

text \<open>
  C4. In every controller state with a valid selection (which every state produced by
  the operations is, \<open>run_selection_valid\<close>): when color and number are both set,
  \<^verbatim>\<open>complete_transmission\<close> returns status \<^verbatim>\<open>completed\<close>, puts one new record with the
  message \<^verbatim>\<open><Color> <Number> sent\<close> in front of the history, keeps the first five
  records of the result, unsets color and number and puts the flag down; when color or
  number is unset it returns status \<^verbatim>\<open>error\<close> and the controller is unchanged. After
  any sequence of operations on a new controller the history has at most five records.
\<close>

theorem complete_transmission_history:
  assumes "selection_valid self"
  shows "(current_color self = Some c \<and> current_number self = Some n \<longrightarrow>
      complete_transmission self now =
        (self\<lparr>transmission_history :=
                 take 5 (\<lparr>rec_color = c, rec_number = n, rec_timestamp = now,
                          rec_message = c @ '' '' @ n @ '' sent''\<rparr>
                         # transmission_history self),
               current_color := None, current_number := None, is_transmitting := False\<rparr>,
         [(''success'', PBool True),
          (''message'', PStr (c @ '' '' @ n @ '' sent'')),
          (''status'', PStr ''completed''),
          (''history'',
             PStrs (map rec_message
                      (take 5 (\<lparr>rec_color = c, rec_number = n, rec_timestamp = now,
                               rec_message = c @ '' '' @ n @ '' sent''\<rparr>
                              # transmission_history self))))]))
   \<and> (current_color self = None \<or> current_number self = None \<longrightarrow>
      complete_transmission self now =
        (self, [(''success'', PBool False),
                (''message'', PStr ''No transmission to complete''),
                (''status'', PStr ''error'')]))
   \<and> length (transmission_history (run ops)) \<le> 5"
proof (intro conjI impI)
  assume set: "current_color self = Some c \<and> current_number self = Some n"
  have t: "truthy (current_color self)" "truthy (current_number self)"
    using truthy_set [OF assms] set by simp_all
  from set t show "complete_transmission self now =
        (self\<lparr>transmission_history :=
                 take 5 (\<lparr>rec_color = c, rec_number = n, rec_timestamp = now,
                          rec_message = c @ '' '' @ n @ '' sent''\<rparr>
                         # transmission_history self),
               current_color := None, current_number := None, is_transmitting := False\<rparr>,
         [(''success'', PBool True),
          (''message'', PStr (c @ '' '' @ n @ '' sent'')),
          (''status'', PStr ''completed''),
          (''history'',
             PStrs (map rec_message
                      (take 5 (\<lparr>rec_color = c, rec_number = n, rec_timestamp = now,
                               rec_message = c @ '' '' @ n @ '' sent''\<rparr>
                              # transmission_history self))))])"
    by (simp add: complete_transmission_def fmt_def Let_def)
next
  assume "current_color self = None \<or> current_number self = None"
  then show "complete_transmission self now =
        (self, [(''success'', PBool False),
                (''message'', PStr ''No transmission to complete''),
                (''status'', PStr ''error'')])"
    by (auto simp: complete_transmission_def truthy_def)
next
  show "length (transmission_history (run ops)) \<le> 5"
    by (rule run_history_length)
qed

theorem complete_transmission_history_witness:
  "selection_valid (run [Set_color ''Red'', Set_number ''42''])
   \<and> current_color (run [Set_color ''Red'', Set_number ''42'']) = Some ''Red''
   \<and> current_number (run [Set_color ''Red'', Set_number ''42'']) = Some ''42''
   \<and> fst (complete_transmission (run [Set_color ''Red'', Set_number ''42'']) 0) =
       \<lparr>transmission_history =
          [\<lparr>rec_color = ''Red'', rec_number = ''42'', rec_timestamp = 0,
            rec_message = ''Red 42 sent''\<rparr>],
        current_color = None, current_number = None, is_transmitting = False\<rparr>
   \<and> selection_valid (run [Set_number ''42''])
   \<and> current_color (run [Set_number ''42'']) = None
   \<and> fst (complete_transmission (run [Set_number ''42'']) 0) = run [Set_number ''42'']"
proof -
  have a: "selection_valid (run [Set_color ''Red'', Set_number ''42''])"
    by code_simp
  have b: "run [Set_color ''Red'', Set_number ''42''] =
       \<lparr>transmission_history = [], current_color = Some ''Red'',
        current_number = Some ''42'', is_transmitting = False\<rparr>"
    by code_simp
  have c: "selection_valid (run [Set_number ''42''])"
    by code_simp
  have d: "current_color (run [Set_number ''42'']) = None"
    by code_simp
  show ?thesis
    using a b c d
      complete_transmission_history [OF a, of "''Red''" "''42''" 0]
      complete_transmission_history [OF c, of _ _ 0]
    by simp
qed

subsection \<open>The transmitting flag\<close>

text \<open>
  C5. After any sequence of the six operations on a new controller \<^verbatim>\<open>is_transmitting\<close>
  is false; no operation raises the flag (if it is up after a call, it was up before);
  and \<^verbatim>\<open>prepare_transmission\<close> never returns the failure record
  \<^verbatim>\<open>Transmission already in progress\<close> in such a state.
\<close>

theorem never_transmitting:
  "\<not> is_transmitting (run ops)
   \<and> (is_transmitting (step self op) \<longrightarrow> is_transmitting self)
   \<and> snd (prepare_transmission (run ops)) \<noteq>
       Inr [(''success'', PBool False),
            (''message'', PStr ''Transmission already in progress''),
            (''status'', PStr ''error'')]"
  using step_is_transmitting [of self op] run_not_transmitting [of ops]
  by (auto simp: prepare_transmission_def split: if_splits sum.splits)

theorem never_transmitting_witness:
  "is_transmitting (step (FiberTesterController_init\<lparr>is_transmitting := True\<rparr>) Clear_selection)
   \<and> is_transmitting (FiberTesterController_init\<lparr>is_transmitting := True\<rparr>)
   \<and> \<not> is_transmitting (run [Set_color ''Blue'', Set_number ''7'', Prepare_transmission])"
proof -
  have h: "is_transmitting (step (FiberTesterController_init\<lparr>is_transmitting := True\<rparr>) Clear_selection)"
    by code_simp
  show ?thesis
    using h never_transmitting [of "[Set_color ''Blue'', Set_number ''7'', Prepare_transmission]"
                                   "FiberTesterController_init\<lparr>is_transmitting := True\<rparr>" Clear_selection]
    by simp
qed

subsection \<open>The fields of the returned records\<close>

text \<open>
  C9. The statement that all six operations return a record with \<^verbatim>\<open>success\<close> and
  \<^verbatim>\<open>message\<close> does not hold of \<^verbatim>\<open>get_status\<close>: its record has neither key.
\<close>

theorem get_status_no_success_message:
  "map_of (snd (get_status FiberTesterController_init)) ''success'' = None
   \<and> map_of (snd (get_status FiberTesterController_init)) ''message'' = None"
  by (simp add: get_status_def)

text \<open>
  C9, as amended. \<^verbatim>\<open>set_color\<close>, \<^verbatim>\<open>set_number\<close>, \<^verbatim>\<open>clear_selection\<close> and
  \<^verbatim>\<open>complete_transmission\<close> return, for every argument and in every state, a record with
  a boolean \<^verbatim>\<open>success\<close> and a string \<^verbatim>\<open>message\<close>; so does \<^verbatim>\<open>prepare_transmission\<close>
  whenever it returns a record; the record of \<^verbatim>\<open>get_status\<close> has exactly the keys
  \<^verbatim>\<open>color\<close>, \<^verbatim>\<open>number\<close>, \<^verbatim>\<open>is_transmitting\<close>, \<^verbatim>\<open>history\<close> and \<^verbatim>\<open>ready_to_send\<close>.
\<close>

theorem result_fields:
  "has_success_message (snd (set_color self c))
   \<and> has_success_message (snd (set_number self n))
   \<and> has_success_message (snd (clear_selection self))
   \<and> has_success_message (snd (complete_transmission self now))
   \<and> (snd (prepare_transmission self) = Inr r \<longrightarrow> has_success_message r)
   \<and> map fst (snd (get_status self)) =
       [''color'', ''number'', ''is_transmitting'', ''history'', ''ready_to_send'']"
  by (auto simp: has_success_message_def set_color_def set_number_def clear_selection_def
                 complete_transmission_def prepare_transmission_def get_status_def Let_def
           split: if_splits sum.splits)

theorem result_fields_witness:
  "snd (prepare_transmission FiberTesterController_init) =
     Inr [(''success'', PBool False), (''message'', PStr ''No color selected''),
          (''status'', PStr ''error'')]
   \<and> has_success_message [(''success'', PBool False), (''message'', PStr ''No color selected''),
          (''status'', PStr ''error'')]"
proof -
  have h: "snd (prepare_transmission FiberTesterController_init) =
     Inr [(''success'', PBool False), (''message'', PStr ''No color selected''),
          (''status'', PStr ''error'')]"
    by code_simp
  show ?thesis
    using h result_fields [of FiberTesterController_init _ _ _ "[(''success'', PBool False), (''message'', PStr ''No color selected''),
          (''status'', PStr ''error'')]"]
    by simp
qed

end
